theory Spec2Isabelle
  imports Complex_Main "HOL-Library.Char_ord"
begin

section \<open>Conventions of the embedding\<close>

text \<open>
  The program is Python. Its \<^verbatim>\<open>float\<close> values are modelled by \<^typ>\<open>real\<close>: arithmetic is
  exact, so the theorems speak about the formulas the code evaluates and not about binary
  rounding. A string is a sequence of code points below 256, one \<^typ>\<open>char\<close> each, and the
  character classes and case mappings below are the ones Python assigns to these code
  points. Python
  dictionaries that the code builds with a fixed set of keys are datatypes or records
  with one field per key. An exception that leaves a function is a value \<open>Inl e\<close> of a sum
  type; an exception caught by the function itself is a branch of its model; a function
  whose source has no raising operation returns its value directly.
\<close>

datatype py_error = IndexError | ValueError | ValidationError

section \<open>Strings\<close>

definition is_digit :: "char \<Rightarrow> bool" where
  "is_digit c \<longleftrightarrow> CHR ''0'' \<le> c \<and> c \<le> CHR ''9''"



text \<open>
  \<^verbatim>\<open>str.lower\<close> maps the capitals 65 to 90 and 192 to 222 (without the sign 215) to the
  letter 32 places up and keeps every other character.
\<close>

definition lower_char :: "char \<Rightarrow> char" where
  "lower_char c =
     (let n = (of_char c :: nat)
      in if (65 \<le> n \<and> n \<le> 90) \<or> (192 \<le> n \<and> n \<le> 222 \<and> n \<noteq> 215) then char_of (n + 32)
         else c)"

text \<open>
  \<^verbatim>\<open>str.upper\<close> maps the small letters 97 to 122 and 224 to 254 (without the sign 247) to
  the letter 32 places down and the sharp s, 223, to the two letters \<^verbatim>\<open>SS\<close>. The capitals of
  the micro sign 181 and of the letter 255 lie beyond code point 255; the model keeps
  these two characters. The code compares upper-cased text with ASCII text only, and the
  only text it upper-cases for output was matched by \<^verbatim>\<open>Q[1-4]\<close>, so no result depends on
  them.
\<close>

definition upper_char :: "char \<Rightarrow> char" where
  "upper_char c =
     (let n = (of_char c :: nat)
      in if (97 \<le> n \<and> n \<le> 122) \<or> (224 \<le> n \<and> n \<le> 254 \<and> n \<noteq> 247) then char_of (n - 32)
         else c)"






fun startswith :: "string \<Rightarrow> string \<Rightarrow> bool" where
  "startswith s [] = True"
| "startswith [] (p # ps) = False"
| "startswith (c # cs) (p # ps) = (c = p \<and> startswith cs ps)"

text \<open>The substring test \<^verbatim>\<open>sub in s\<close>.\<close>

fun py_in :: "string \<Rightarrow> string \<Rightarrow> bool" where
  "py_in sub [] = (sub = [])"
| "py_in sub (c # cs) = (startswith (c # cs) sub \<or> py_in sub cs)"










section \<open>The value normalizer (\<^verbatim>\<open>FinancialDataExtractor._convert_to_numeric\<close>)\<close>



section \<open>The range validator (\<^verbatim>\<open>FinancialDataValidator\<close>)\<close>

definition table_cell_ranges :: "string \<rightharpoonup> real \<times> real" where
  "table_cell_ranges = map_of
     [(''net_profit'', (1, 1000)),
      (''total_assets'', (1, 10000)),
      (''shareholder_equity'', (1, 10000)),
      (''total_loans'', (1, 10000)),
      (''total_deposits'', (1, 10000)),
      (''net_interest_income'', (1, 1000))]"

definition main_financial_ranges :: "string \<rightharpoonup> real \<times> real" where
  "main_financial_ranges = map_of
     [(''net_profit'', (1000, 20000)),
      (''total_assets'', (400000, 1200000)),
      (''shareholder_equity'', (80000, 120000)),
      (''total_loans'', (200000, 500000)),
      (''total_deposits'', (300000, 600000)),
      (''net_interest_income'', (1000, 15000))]"

text \<open>
  The dictionary a validation returns: the keys \<^verbatim>\<open>is_valid\<close> and \<^verbatim>\<open>confidence\<close> are always
  present, \<^verbatim>\<open>value_type\<close> only for an accepted value of a metric with bands. The keys
  \<^verbatim>\<open>note\<close>, \<^verbatim>\<open>issue\<close> and \<^verbatim>\<open>suggestion\<close> hold formatted text for the log and are left out.
\<close>

record validation =
  is_valid :: bool
  val_confidence :: real
  value_type :: "string option"

text \<open>
  \<^verbatim>\<open>round(x, 2)\<close>: the nearest multiple of one hundredth, a tie going to the even
  hundredth.
\<close>

definition py_round2 :: "real \<Rightarrow> real" where
  "py_round2 x =
     (let y = x * 100; f = \<lfloor>y\<rfloor>; d = y - of_int f
      in of_int (if d < 1/2 then f else if d > 1/2 then f + 1
                 else if even f then f else f + 1) / 100)"

definition validate_extraction :: "string \<Rightarrow> real \<Rightarrow> int \<Rightarrow> validation" where
  "validate_extraction metric v year =
     (case main_financial_ranges metric of
        None \<Rightarrow> \<lparr>is_valid = True, val_confidence = 0.7, value_type = None\<rparr>
      | Some (main_min, main_max) \<Rightarrow>
          (case (case table_cell_ranges metric of
                   None \<Rightarrow> None
                 | Some (table_min, table_max) \<Rightarrow>
                     if table_min \<le> v \<and> v \<le> table_max
                     then Some \<lparr>is_valid = True,
                                val_confidence = (if 1 \<le> v \<and> v \<le> 1000 then 0.7 else 0.6),
                                value_type = Some ''table_cell''\<rparr>
                     else None) of
             Some r \<Rightarrow> r
           | None \<Rightarrow>
               if main_min \<le> v \<and> v \<le> main_max
               then let median = (main_min + main_max) / 2;
                        deviation = \<bar>v - median\<bar> / median;
                        confidence = max 0.7 (1 - deviation)
                    in \<lparr>is_valid = True, val_confidence = py_round2 confidence,
                        value_type = Some ''main_financial''\<rparr>
               else \<lparr>is_valid = False, val_confidence = 0.1, value_type = None\<rparr>))"

text \<open>
  The vocabulary of the specification for the validator: the two bands of a metric, and
  the three outcomes of a validation.
\<close>

definition in_table_cell_band :: "string \<Rightarrow> real \<Rightarrow> bool" where
  "in_table_cell_band m v =
     (case table_cell_ranges m of None \<Rightarrow> False | Some (lo, hi) \<Rightarrow> lo \<le> v \<and> v \<le> hi)"

definition in_main_financial_band :: "string \<Rightarrow> real \<Rightarrow> bool" where
  "in_main_financial_band m v =
     (case main_financial_ranges m of None \<Rightarrow> False | Some (lo, hi) \<Rightarrow> lo \<le> v \<and> v \<le> hi)"

definition table_cell_valid :: "validation \<Rightarrow> bool" where
  "table_cell_valid r \<longleftrightarrow> is_valid r \<and> value_type r = Some ''table_cell''"

definition main_financial_valid :: "validation \<Rightarrow> bool" where
  "main_financial_valid r \<longleftrightarrow> is_valid r \<and> value_type r = Some ''main_financial''"

definition invalid :: "validation \<Rightarrow> bool" where
  "invalid r \<longleftrightarrow> \<not> is_valid r"

section \<open>The schema (\<^verbatim>\<open>models/schemas.py\<close>)\<close>

datatype Quarter = Q1 | Q2 | Q3 | Q4 | ANNUAL



datatype FinancialMetric =
    NET_PROFIT | NET_INTEREST_INCOME | TOTAL_ASSETS | TOTAL_LOANS | TOTAL_DEPOSITS
  | SHAREHOLDER_EQUITY | ROE | ROA | NIM | LOAN_TO_DEPOSIT | COST_OF_RISK | NPL_RATIO


text \<open>
  Of the document metadata only the year and the quarter are read by the modelled
  functions; the other keys are carried along unchanged and are left out.
\<close>

record DocumentMetadata =
  year :: int
  quarter :: Quarter

text \<open>The field \<^verbatim>\<open>value\<close> of the source is \<open>dp_value\<close> here.\<close>

record FinancialDataPoint =
  metric :: FinancialMetric
  dp_value :: real
  period :: string
  metadata :: DocumentMetadata
  source_page :: int
  source_section :: string
  confidence :: real


section \<open>The extraction stage (\<^verbatim>\<open>FinancialDataExtractor\<close>)\<close>












section \<open>The data point aggregator (\<^verbatim>\<open>CalculationAgent._group_data_by_period\<close>)\<close>

text \<open>
  The nested dictionary is a map from periods to maps from metrics to values. The body of
  the loop is \<open>group_step\<close>.
\<close>

type_synonym grouped = "string \<rightharpoonup> (FinancialMetric \<rightharpoonup> real)"

definition group_step :: "grouped \<Rightarrow> FinancialDataPoint \<Rightarrow> grouped" where
  "group_step grouped dp =
     (let g = (if period dp \<notin> dom grouped then grouped(period dp \<mapsto> Map.empty) else grouped)
      in g(period dp \<mapsto> (the (g (period dp)))(metric dp \<mapsto> dp_value dp)))"

definition group_data_by_period :: "FinancialDataPoint list \<Rightarrow> grouped" where
  "group_data_by_period data_points = foldl group_step Map.empty data_points"

text \<open>The value stored for a period and a metric, if any: \<^verbatim>\<open>grouped[period][metric]\<close>.\<close>

definition grouped_value :: "grouped \<Rightarrow> string \<Rightarrow> FinancialMetric \<Rightarrow> real option" where
  "grouped_value g p m = (case g p of None \<Rightarrow> None | Some ms \<Rightarrow> ms m)"

text \<open>
  The policy the specification words for duplicates, for comparison with the code: among
  the data points of a period and a metric the one of highest confidence is retained, the
  one added later winning a tie.
\<close>

definition keep_better ::
  "FinancialDataPoint option \<Rightarrow> FinancialDataPoint \<Rightarrow> FinancialDataPoint option" where
  "keep_better best dp =
     (case best of
        None \<Rightarrow> Some dp
      | Some b \<Rightarrow> if confidence b \<le> confidence dp then Some dp else Some b)"

definition spec_highest_confidence_value ::
  "FinancialDataPoint list \<Rightarrow> string \<Rightarrow> FinancialMetric \<Rightarrow> real option" where
  "spec_highest_confidence_value data_points p m =
     map_option dp_value
       (foldl keep_better None (filter (\<lambda>dp. period dp = p \<and> metric dp = m) data_points))"

section \<open>The financial calculator (\<^verbatim>\<open>tools/calculator.py\<close>)\<close>

text \<open>
  Every method returns a dictionary. The dictionary \<^verbatim>\<open>{"error": msg}\<close> is \<open>CalcError msg\<close>;
  the other constructors list the values of a result dictionary in the order of its keys,
  and \<open>calculation_type\<close> gives the value stored under the key of that name.
\<close>

datatype calc_result =
    CalcError string
  | PercentageChange real real real real
      \<comment> \<open>\<^verbatim>\<open>old_value, new_value, absolute_change, percentage_change\<close>\<close>
  | Roe real real real
      \<comment> \<open>\<^verbatim>\<open>net_income, shareholder_equity, roe_percentage\<close>\<close>
  | LoanToDeposit real real real
      \<comment> \<open>\<^verbatim>\<open>total_loans, total_deposits, ldr_percentage\<close>\<close>
  | Nim real real real
      \<comment> \<open>\<^verbatim>\<open>net_interest_income, earning_assets, nim_percentage\<close>\<close>
  | Trend "string list" "real list" real real string real string "real list" real
      \<comment> \<open>\<^verbatim>\<open>periods, values, mean, min_value, min_period, max_value, max_period,
          growth_rates, average_growth\<close>\<close>

fun calculation_type :: "calc_result \<Rightarrow> string option" where
  "calculation_type (CalcError _) = None"
| "calculation_type (PercentageChange _ _ _ _) = Some ''percentage_change''"
| "calculation_type (Roe _ _ _) = Some ''roe''"
| "calculation_type (LoanToDeposit _ _ _) = Some ''loan_to_deposit_ratio''"
| "calculation_type (Nim _ _ _) = Some ''net_interest_margin''"
| "calculation_type (Trend _ _ _ _ _ _ _ _ _) = Some ''trend_analysis''"

text \<open>
  The calculator object holds one mutable field, the list \<^verbatim>\<open>calculation_history\<close>. A method
  takes the history and returns the result together with the new history; an error result
  is returned before the append.
\<close>

type_synonym history = "calc_result list"

definition calculate_percentage_change :: "real \<Rightarrow> real \<Rightarrow> history \<Rightarrow> calc_result \<times> history" where
  "calculate_percentage_change old_value new_value h =
     (if old_value = 0 then (CalcError ''Cannot calculate percentage change from zero'', h)
      else let change = new_value - old_value;
               percentage = (change / old_value) * 100;
               result = PercentageChange old_value new_value change percentage
           in (result, h @ [result]))"

definition calculate_roe :: "real \<Rightarrow> real \<Rightarrow> history \<Rightarrow> calc_result \<times> history" where
  "calculate_roe net_income shareholder_equity h =
     (if shareholder_equity = 0 then (CalcError ''Cannot calculate ROE with zero equity'', h)
      else let roe = (net_income / shareholder_equity) * 100;
               result = Roe net_income shareholder_equity roe
           in (result, h @ [result]))"

definition calculate_loan_to_deposit :: "real \<Rightarrow> real \<Rightarrow> history \<Rightarrow> calc_result \<times> history" where
  "calculate_loan_to_deposit total_loans total_deposits h =
     (if total_deposits = 0 then (CalcError ''Cannot calculate LDR with zero deposits'', h)
      else let ldr = (total_loans / total_deposits) * 100;
               result = LoanToDeposit total_loans total_deposits ldr
           in (result, h @ [result]))"

definition calculate_nim :: "real \<Rightarrow> real \<Rightarrow> history \<Rightarrow> calc_result \<times> history" where
  "calculate_nim net_interest_income earning_assets h =
     (if earning_assets = 0 then (CalcError ''Cannot calculate NIM with zero earning assets'', h)
      else let nim = (net_interest_income / earning_assets) * 100;
               result = Nim net_interest_income earning_assets nim
           in (result, h @ [result]))"

subsection \<open>Trend analysis\<close>

text \<open>
  \<^verbatim>\<open>min(values)\<close> and \<^verbatim>\<open>max(values)\<close> scan the list from the left, keeping the first extreme
  element, and raise \<^verbatim>\<open>ValueError\<close> on the empty list; \<^verbatim>\<open>values.index(v)\<close> is the first position holding \<open>v\<close> and raises
  \<^verbatim>\<open>ValueError\<close> when there is none; \<^verbatim>\<open>periods[i]\<close> for \<open>i \<ge> 0\<close> raises \<^verbatim>\<open>IndexError\<close> when
  \<open>i\<close> is not below the length.
\<close>

fun py_min :: "real list \<Rightarrow> py_error + real" where
  "py_min [] = Inl ValueError"
| "py_min (x # xs) = Inr (fold (\<lambda>y m. if y < m then y else m) xs x)"

fun py_max :: "real list \<Rightarrow> py_error + real" where
  "py_max [] = Inl ValueError"
| "py_max (x # xs) = Inr (fold (\<lambda>y m. if y > m then y else m) xs x)"

fun py_index :: "real list \<Rightarrow> real \<Rightarrow> py_error + nat" where
  "py_index [] v = Inl ValueError"
| "py_index (x # xs) v =
     (if x = v then Inr 0
      else case py_index xs v of Inl e \<Rightarrow> Inl e | Inr i \<Rightarrow> Inr (Suc i))"

definition py_getitem :: "'a list \<Rightarrow> nat \<Rightarrow> py_error + 'a" where
  "py_getitem xs i = (if i < length xs then Inr (xs ! i) else Inl IndexError)"

text \<open>The loop \<^verbatim>\<open>for i in range(1, len(values))\<close> that fills \<^verbatim>\<open>growth_rates\<close>.\<close>

fun growth_rates_of :: "real list \<Rightarrow> real list" where
  "growth_rates_of (prev # cur # rest) =
     (if prev \<noteq> 0 then ((cur - prev) / prev) * 100 else 0) # growth_rates_of (cur # rest)"
| "growth_rates_of _ = []"

definition calculate_trend ::
  "real list \<Rightarrow> string list \<Rightarrow> history \<Rightarrow> py_error + (calc_result \<times> history)" where
  "calculate_trend vals periods h =
     (if length vals < 2 then Inr (CalcError ''Need at least 2 values for trend analysis'', h)
      else
        let mean = sum_list vals / real (length vals)
        in (case py_min vals of Inl e \<Rightarrow> Inl e | Inr min_val \<Rightarrow>
           (case py_max vals of Inl e \<Rightarrow> Inl e | Inr max_val \<Rightarrow>
           (case py_index vals min_val of Inl e \<Rightarrow> Inl e | Inr imin \<Rightarrow>
           (case py_getitem periods imin of Inl e \<Rightarrow> Inl e | Inr min_period \<Rightarrow>
           (case py_index vals max_val of Inl e \<Rightarrow> Inl e | Inr imax \<Rightarrow>
           (case py_getitem periods imax of Inl e \<Rightarrow> Inl e | Inr max_period \<Rightarrow>
             (let growth_rates = growth_rates_of vals;
                  average_growth =
                    (if growth_rates \<noteq> [] then sum_list growth_rates / real (length growth_rates)
                     else 0);
                  result = Trend periods vals mean min_val min_period max_val max_period
                             growth_rates average_growth
              in Inr (result, h @ [result])))))))))"

section \<open>Regular expressions\<close>



















section \<open>The temporal reference parser\<close>


subsection \<open>\<^verbatim>\<open>FinancialDataExtractor._extract_target_periods\<close>\<close>




subsection \<open>\<^verbatim>\<open>TemporalReasoningTool.parse_period_reference\<close>\<close>





section \<open>Properties of the calculator\<close>

subsection \<open>Auxiliary facts about the list operations\<close>

lemma py_min_fold: "fold (\<lambda>y m. if y < m then y else m) xs (x::real) = Min (set (x # xs))"
proof -
  have "(\<lambda>y m. if y < m then y else m) = (min :: real \<Rightarrow> real \<Rightarrow> real)"
    by (intro ext) (simp add: min_def)
  then show ?thesis by (simp only: Min.set_eq_fold)
qed

lemma py_min_Min: "vals \<noteq> [] \<Longrightarrow> py_min vals = Inr (Min (set vals))"
  by (cases vals) (simp_all only: py_min.simps py_min_fold, simp)

lemma py_max_fold: "fold (\<lambda>y m. if y > m then y else m) xs (x::real) = Max (set (x # xs))"
proof -
  have "(\<lambda>y m. if y > m then y else m) = (max :: real \<Rightarrow> real \<Rightarrow> real)"
    by (intro ext) (simp add: max_def)
  then show ?thesis by (simp only: Max.set_eq_fold)
qed

lemma py_max_Max: "vals \<noteq> [] \<Longrightarrow> py_max vals = Inr (Max (set vals))"
  by (cases vals) (simp_all only: py_max.simps py_max_fold, simp)

lemma py_index_first:
  "v \<in> set xs \<Longrightarrow>
   \<exists>i. py_index xs v = Inr i \<and> i < length xs \<and> xs ! i = v \<and> (\<forall>j<i. xs ! j \<noteq> v)"
proof (induction xs)
  case Nil
  then show ?case by simp
next
  case (Cons x xs)
  show ?case
  proof (cases "x = v")
    case True
    then show ?thesis by simp
  next
    case False
    with Cons.prems have "v \<in> set xs" by simp
    then obtain i where i: "py_index xs v = Inr i" "i < length xs" "xs ! i = v"
        "\<forall>j<i. xs ! j \<noteq> v"
      using Cons.IH by blast
    have "\<forall>j<Suc i. (x # xs) ! j \<noteq> v"
      using False i(4) by (auto simp: nth_Cons split: nat.splits)
    with False i show ?thesis by simp
  qed
qed

lemma growth_rates_length: "length (growth_rates_of vals) = length vals - 1"
  by (induction vals rule: growth_rates_of.induct) simp_all

lemma growth_rates_nth:
  "Suc i < length vals \<Longrightarrow>
   growth_rates_of vals ! i =
     (if vals ! i \<noteq> 0 then ((vals ! Suc i - vals ! i) / (vals ! i)) * 100 else 0)"
proof (induction vals arbitrary: i rule: growth_rates_of.induct)
  case (1 prev cur rest)
  then show ?case by (cases i) simp_all
qed simp_all

lemma calculate_trend_parallel:
  assumes len: "2 \<le> length vals" and par: "length vals \<le> length periods"
  shows "\<exists>imin imax.
      imin < length vals \<and> vals ! imin = Min (set vals) \<and>
      (\<forall>j<imin. vals ! j \<noteq> Min (set vals)) \<and>
      imax < length vals \<and> vals ! imax = Max (set vals) \<and>
      (\<forall>j<imax. vals ! j \<noteq> Max (set vals)) \<and>
      calculate_trend vals periods h =
        Inr (Trend periods vals (sum_list vals / real (length vals))
               (Min (set vals)) (periods ! imin) (Max (set vals)) (periods ! imax)
               (growth_rates_of vals)
               (sum_list (growth_rates_of vals) / real (length (growth_rates_of vals))),
             h @ [Trend periods vals (sum_list vals / real (length vals))
               (Min (set vals)) (periods ! imin) (Max (set vals)) (periods ! imax)
               (growth_rates_of vals)
               (sum_list (growth_rates_of vals) / real (length (growth_rates_of vals)))])"
proof -
  from len have ne: "vals \<noteq> []" by auto
  have mn: "py_min vals = Inr (Min (set vals))" and mx: "py_max vals = Inr (Max (set vals))"
    using ne by (simp_all add: py_min_Min py_max_Max)
  have "Min (set vals) \<in> set vals" using ne by (simp add: Min_in)
  then obtain imin where imin: "py_index vals (Min (set vals)) = Inr imin" "imin < length vals"
      "vals ! imin = Min (set vals)" "\<forall>j<imin. vals ! j \<noteq> Min (set vals)"
    using py_index_first by blast
  have "Max (set vals) \<in> set vals" using ne by (simp add: Max_in)
  then obtain imax where imax: "py_index vals (Max (set vals)) = Inr imax" "imax < length vals"
      "vals ! imax = Max (set vals)" "\<forall>j<imax. vals ! j \<noteq> Max (set vals)"
    using py_index_first by blast
  have g: "growth_rates_of vals \<noteq> []"
    using growth_rates_length [of vals] len by auto
  have "calculate_trend vals periods h =
        Inr (Trend periods vals (sum_list vals / real (length vals))
               (Min (set vals)) (periods ! imin) (Max (set vals)) (periods ! imax)
               (growth_rates_of vals)
               (sum_list (growth_rates_of vals) / real (length (growth_rates_of vals))),
             h @ [Trend periods vals (sum_list vals / real (length vals))
               (Min (set vals)) (periods ! imin) (Max (set vals)) (periods ! imax)
               (growth_rates_of vals)
               (sum_list (growth_rates_of vals) / real (length (growth_rates_of vals)))])"
    using len par imin(1,2) imax(1,2) g
    by (simp add: calculate_trend_def mn mx py_getitem_def Let_def)
  with imin imax show ?thesis by blast
qed

lemma calculate_trend_short:
  "length vals < 2 \<Longrightarrow>
   calculate_trend vals periods h =
     Inr (CalcError ''Need at least 2 values for trend analysis'', h)"
  by (simp add: calculate_trend_def)

lemma calculate_trend_example:
  "calculate_trend [100, 200, 150] [p1, p2, p3] h =
     Inr (Trend [p1, p2, p3] [100, 200, 150] 150 100 p1 200 p2 [100, -25] 37.5,
          h @ [Trend [p1, p2, p3] [100, 200, 150] 150 100 p1 200 p2 [100, -25] 37.5])"
  by (simp add: calculate_trend_def py_getitem_def Let_def)

lemma calculate_trend_no_typed_error:
  "2 \<le> length vals \<Longrightarrow> calculate_trend vals periods h \<noteq> Inr (CalcError msg, h')"
  by (auto simp: calculate_trend_def Let_def split: sum.splits)

subsection \<open>Zero denominators\<close>

text \<open>
  Claim C5. Percentage change from an old value of zero, ROE with zero equity, the
  loan-to-deposit ratio with zero deposits and the net interest margin with zero earning
  assets each return the error dictionary with its message and leave the history alone.
  For every other denominator they return the numeric result: the absolute change
  \<open>new - old\<close> and the percentage \<open>(new - old) / old * 100\<close>, and for the three ratios
  \<open>numerator / denominator * 100\<close>. None of the four methods has a raising operation, so
  the result is always a returned dictionary.
\<close>

theorem calculator_zero_denominator_typed_error:
  "(old_value = 0 \<longrightarrow>
      calculate_percentage_change old_value new_value h =
        (CalcError ''Cannot calculate percentage change from zero'', h)) \<and>
   (old_value \<noteq> 0 \<longrightarrow>
      fst (calculate_percentage_change old_value new_value h) =
        PercentageChange old_value new_value (new_value - old_value)
          ((new_value - old_value) / old_value * 100)) \<and>
   (equity = 0 \<longrightarrow>
      calculate_roe net_income equity h = (CalcError ''Cannot calculate ROE with zero equity'', h)) \<and>
   (equity \<noteq> 0 \<longrightarrow>
      fst (calculate_roe net_income equity h) = Roe net_income equity (net_income / equity * 100)) \<and>
   (deposits = 0 \<longrightarrow>
      calculate_loan_to_deposit loans deposits h =
        (CalcError ''Cannot calculate LDR with zero deposits'', h)) \<and>
   (deposits \<noteq> 0 \<longrightarrow>
      fst (calculate_loan_to_deposit loans deposits h) =
        LoanToDeposit loans deposits (loans / deposits * 100)) \<and>
   (assets = 0 \<longrightarrow>
      calculate_nim nii assets h =
        (CalcError ''Cannot calculate NIM with zero earning assets'', h)) \<and>
   (assets \<noteq> 0 \<longrightarrow>
      fst (calculate_nim nii assets h) = Nim nii assets (nii / assets * 100))"
  by (simp add: calculate_percentage_change_def calculate_roe_def
        calculate_loan_to_deposit_def calculate_nim_def Let_def)

theorem calculator_zero_denominator_typed_error_witness:
  "calculate_percentage_change 0 5 [] =
     (CalcError ''Cannot calculate percentage change from zero'', []) \<and>
   fst (calculate_percentage_change 4 5 []) = PercentageChange 4 5 1 25 \<and>
   calculate_roe 5120 0 [] = (CalcError ''Cannot calculate ROE with zero equity'', []) \<and>
   fst (calculate_roe 50 200 []) = Roe 50 200 25 \<and>
   calculate_loan_to_deposit 7 0 [] = (CalcError ''Cannot calculate LDR with zero deposits'', []) \<and>
   fst (calculate_loan_to_deposit 30 40 []) = LoanToDeposit 30 40 75 \<and>
   calculate_nim 3 0 [] = (CalcError ''Cannot calculate NIM with zero earning assets'', []) \<and>
   fst (calculate_nim 1 8 []) = Nim 1 8 12.5"
  using calculator_zero_denominator_typed_error [of 0 5 "[]" 0 5120 0 7 0 3]
    calculator_zero_denominator_typed_error [of 4 5 "[]" 200 50 40 30 8 1]
  by simp

subsection \<open>Trend statistics on parallel lists\<close>

text \<open>
  Claim C6. The trend is specified for parallel lists of values and periods, of the same
  length. On such lists with at least two values the call returns the trend dictionary:
  the mean is the sum over the count; the minimum and the maximum are the least and the
  greatest value, each reported with the period at the first position holding it; the
  growth rate of step \<open>i\<close> is \<open>(values[i+1] - values[i]) / values[i] * 100\<close>, or \<open>0\<close> when
  \<open>values[i]\<close> is zero; the average growth is the arithmetic mean of these rates. With
  fewer than two values the call returns the error dictionary. For the values
  \<open>100, 200, 150\<close> the maximum is at the second period, the minimum at the first, and
  the average growth is \<open>37.5\<close>.
\<close>

theorem calculate_trend_statistics:
  "(2 \<le> length vals \<and> length periods = length vals \<longrightarrow>
     (\<exists>imin imax growth.
        imin < length vals \<and> vals ! imin = Min (set vals) \<and>
        (\<forall>j<imin. vals ! j \<noteq> Min (set vals)) \<and>
        imax < length vals \<and> vals ! imax = Max (set vals) \<and>
        (\<forall>j<imax. vals ! j \<noteq> Max (set vals)) \<and>
        length growth = length vals - 1 \<and>
        (\<forall>i. Suc i < length vals \<longrightarrow>
           growth ! i =
             (if vals ! i \<noteq> 0 then ((vals ! Suc i - vals ! i) / (vals ! i)) * 100 else 0)) \<and>
        map_sum id fst (calculate_trend vals periods h) =
          Inr (Trend periods vals (sum_list vals / real (length vals))
            (Min (set vals)) (periods ! imin) (Max (set vals)) (periods ! imax)
            growth (sum_list growth / real (length growth))))) \<and>
   (length vals < 2 \<longrightarrow>
      calculate_trend vals periods h =
        Inr (CalcError ''Need at least 2 values for trend analysis'', h)) \<and>
   map_sum id fst (calculate_trend [100, 200, 150] [p1, p2, p3] h) =
     Inr (Trend [p1, p2, p3] [100, 200, 150] 150 100 p1 200 p2 [100, -25] 37.5)"
proof (intro conjI impI)
  assume a: "2 \<le> length vals \<and> length periods = length vals"
  then have len: "2 \<le> length vals" and par: "length vals \<le> length periods" by simp_all
  from calculate_trend_parallel [OF len par, of h]
  obtain imin imax where r:
      "imin < length vals" "vals ! imin = Min (set vals)" "\<forall>j<imin. vals ! j \<noteq> Min (set vals)"
      "imax < length vals" "vals ! imax = Max (set vals)" "\<forall>j<imax. vals ! j \<noteq> Max (set vals)"
      "calculate_trend vals periods h =
        Inr (Trend periods vals (sum_list vals / real (length vals))
               (Min (set vals)) (periods ! imin) (Max (set vals)) (periods ! imax)
               (growth_rates_of vals)
               (sum_list (growth_rates_of vals) / real (length (growth_rates_of vals))),
             h @ [Trend periods vals (sum_list vals / real (length vals))
               (Min (set vals)) (periods ! imin) (Max (set vals)) (periods ! imax)
               (growth_rates_of vals)
               (sum_list (growth_rates_of vals) / real (length (growth_rates_of vals)))])"
    by blast
  have g: "length (growth_rates_of vals) = length vals - 1"
    by (rule growth_rates_length)
  have n: "\<forall>i. Suc i < length vals \<longrightarrow>
      growth_rates_of vals ! i =
        (if vals ! i \<noteq> 0 then ((vals ! Suc i - vals ! i) / (vals ! i)) * 100 else 0)"
    using growth_rates_nth by blast
  have f: "map_sum id fst (calculate_trend vals periods h) =
          Inr (Trend periods vals (sum_list vals / real (length vals))
            (Min (set vals)) (periods ! imin) (Max (set vals)) (periods ! imax)
            (growth_rates_of vals)
            (sum_list (growth_rates_of vals) / real (length (growth_rates_of vals))))"
    by (simp add: r(7))
  from r(1-6) g n f
  show "\<exists>imin imax growth.
        imin < length vals \<and> vals ! imin = Min (set vals) \<and>
        (\<forall>j<imin. vals ! j \<noteq> Min (set vals)) \<and>
        imax < length vals \<and> vals ! imax = Max (set vals) \<and>
        (\<forall>j<imax. vals ! j \<noteq> Max (set vals)) \<and>
        length growth = length vals - 1 \<and>
        (\<forall>i. Suc i < length vals \<longrightarrow>
           growth ! i =
             (if vals ! i \<noteq> 0 then ((vals ! Suc i - vals ! i) / (vals ! i)) * 100 else 0)) \<and>
        map_sum id fst (calculate_trend vals periods h) =
          Inr (Trend periods vals (sum_list vals / real (length vals))
            (Min (set vals)) (periods ! imin) (Max (set vals)) (periods ! imax)
            growth (sum_list growth / real (length growth)))"
    by blast
next
  assume "length vals < 2"
  then show "calculate_trend vals periods h =
      Inr (CalcError ''Need at least 2 values for trend analysis'', h)"
    by (rule calculate_trend_short)
next
  show "map_sum id fst (calculate_trend [100, 200, 150] [p1, p2, p3] h) =
     Inr (Trend [p1, p2, p3] [100, 200, 150] 150 100 p1 200 p2 [100, -25] 37.5)"
    by (simp add: calculate_trend_example)
qed

theorem calculate_trend_statistics_witness:
  "2 \<le> length [100, 200, 150 :: real] \<and>
   length [''2022_Q1'', ''2022_Q2'', ''2022_Q3''] = length [100, 200, 150 :: real] \<and>
   (\<exists>r. map_sum id fst
          (calculate_trend [100, 200, 150] [''2022_Q1'', ''2022_Q2'', ''2022_Q3''] []) = Inr r \<and>
        calculation_type r = Some ''trend_analysis'') \<and>
   length [7 :: real] < 2 \<and>
   calculate_trend [7] [''2022_Q1''] [] =
     Inr (CalcError ''Need at least 2 values for trend analysis'', [])"
proof -
  have a: "2 \<le> length [100, 200, 150 :: real] \<and>
      length [''2022_Q1'', ''2022_Q2'', ''2022_Q3''] = length [100, 200, 150 :: real]"
    by simp
  have b: "length [7 :: real] < 2" by simp
  note t = calculate_trend_statistics
         [of "[100, 200, 150]" "[''2022_Q1'', ''2022_Q2'', ''2022_Q3'']" "[]"]
  from t [THEN conjunct1, THEN mp, OF a]
  obtain r where
    "map_sum id fst
       (calculate_trend [100, 200, 150] [''2022_Q1'', ''2022_Q2'', ''2022_Q3''] []) = Inr r"
    "calculation_type r = Some ''trend_analysis''"
    by (elim exE conjE) (rule that, assumption, simp)
  then have c: "\<exists>r. map_sum id fst
          (calculate_trend [100, 200, 150] [''2022_Q1'', ''2022_Q2'', ''2022_Q3''] []) = Inr r \<and>
        calculation_type r = Some ''trend_analysis''"
    by blast
  note u = calculate_trend_statistics [of "[7]" "[''2022_Q1'']" "[]"]
  from u [THEN conjunct2, THEN conjunct1, THEN mp, OF b]
  have d: "calculate_trend [7] [''2022_Q1''] [] =
     Inr (CalcError ''Need at least 2 values for trend analysis'', [])" .
  from a b c d show ?thesis by (intro conjI) (simp_all only: simp_thms)
qed

subsection \<open>Trend analysis on lists that are not parallel\<close>

text \<open>
  Claim C10. The method compares no lengths. A periods list at least as long as the
  values list is enough for a call with two or more values to return the trend
  dictionary. Without it the lookup of the period of the minimum or of the maximum can
  leave the list: for the values \<open>1, 2\<close> and no periods the call raises \<^verbatim>\<open>IndexError\<close>.
  No call with two or more values returns the error dictionary, whatever the periods.
\<close>

theorem calculate_trend_unchecked_periods:
  "(2 \<le> length vals \<and> length vals \<le> length periods \<longrightarrow>
      (\<exists>r h'. calculate_trend vals periods h = Inr (r, h') \<and>
         calculation_type r = Some ''trend_analysis'')) \<and>
   (2 \<le> length vals \<longrightarrow>
      (\<forall>msg h'. calculate_trend vals periods h \<noteq> Inr (CalcError msg, h'))) \<and>
   calculate_trend [1, 2] [] h = Inl IndexError"
proof (intro conjI impI)
  assume "2 \<le> length vals \<and> length vals \<le> length periods"
  then have "2 \<le> length vals" "length vals \<le> length periods" by simp_all
  from calculate_trend_parallel [OF this, of h]
  obtain imin imax where "calculate_trend vals periods h =
        Inr (Trend periods vals (sum_list vals / real (length vals))
               (Min (set vals)) (periods ! imin) (Max (set vals)) (periods ! imax)
               (growth_rates_of vals)
               (sum_list (growth_rates_of vals) / real (length (growth_rates_of vals))),
             h @ [Trend periods vals (sum_list vals / real (length vals))
               (Min (set vals)) (periods ! imin) (Max (set vals)) (periods ! imax)
               (growth_rates_of vals)
               (sum_list (growth_rates_of vals) / real (length (growth_rates_of vals)))])"
    by blast
  then show "\<exists>r h'. calculate_trend vals periods h = Inr (r, h') \<and>
         calculation_type r = Some ''trend_analysis''"
    by simp
next
  assume "2 \<le> length vals"
  then show "\<forall>msg h'. calculate_trend vals periods h \<noteq> Inr (CalcError msg, h')"
    using calculate_trend_no_typed_error by blast
next
  show "calculate_trend [1, 2] [] h = Inl IndexError"
    by (simp add: calculate_trend_def py_getitem_def Let_def)
qed

theorem calculate_trend_unchecked_periods_witness:
  "2 \<le> length [1, 2 :: real] \<and> length [1, 2 :: real] \<le> length [''2022_Q1'', ''2022_Q2''] \<and>
   (\<exists>r h'. calculate_trend [1, 2] [''2022_Q1'', ''2022_Q2''] [] = Inr (r, h') \<and>
      calculation_type r = Some ''trend_analysis'') \<and>
   (\<forall>msg h'. calculate_trend [1, 2] [''2022_Q1'', ''2022_Q2''] [] \<noteq> Inr (CalcError msg, h'))"
proof -
  have a: "2 \<le> length [1, 2 :: real] \<and>
      length [1, 2 :: real] \<le> length [''2022_Q1'', ''2022_Q2'']"
    by simp
  then have b: "2 \<le> length [1, 2 :: real]" by simp
  note t = calculate_trend_unchecked_periods [of "[1, 2]" "[''2022_Q1'', ''2022_Q2'']" "[]"]
  from a t [THEN conjunct1, THEN mp, OF a] t [THEN conjunct2, THEN conjunct1, THEN mp, OF b]
  show ?thesis by (intro conjI) (simp_all only: simp_thms)
qed
section \<open>Properties of the range validator\<close>

lemma main_band_cases:
  "main_financial_ranges m = Some (lo, hi) \<Longrightarrow>
     (m = ''net_profit'' \<and> lo = 1000 \<and> hi = 20000) \<or>
     (m = ''total_assets'' \<and> lo = 400000 \<and> hi = 1200000) \<or>
     (m = ''shareholder_equity'' \<and> lo = 80000 \<and> hi = 120000) \<or>
     (m = ''total_loans'' \<and> lo = 200000 \<and> hi = 500000) \<or>
     (m = ''total_deposits'' \<and> lo = 300000 \<and> hi = 600000) \<or>
     (m = ''net_interest_income'' \<and> lo = 1000 \<and> hi = 15000)"
  by (simp add: main_financial_ranges_def split: if_splits)

lemma table_band_cases:
  "main_financial_ranges m = Some (lo, hi) \<Longrightarrow>
     table_cell_ranges m =
       Some (1, if m = ''net_profit'' \<or> m = ''net_interest_income'' then 1000 else 10000)"
  by (drule main_band_cases) (auto simp: table_cell_ranges_def)

lemma band_confidence:
  assumes "main_financial_ranges m = Some (lo, hi)"
  shows "val_confidence (validate_extraction m ((lo + hi) / 2) y) = 1"
    and "val_confidence (validate_extraction m lo y) =
           (if m = ''shareholder_equity'' then 0.8 else 0.7)"
    and "val_confidence (validate_extraction m hi y) =
           (if m = ''shareholder_equity'' then 0.8 else 0.7)"
    and "value_type (validate_extraction m lo y) =
           (if m = ''net_profit'' \<or> m = ''net_interest_income'' then Some ''table_cell''
            else Some ''main_financial'')"
    and "value_type (validate_extraction m hi y) = Some ''main_financial''"
    and "value_type (validate_extraction m ((lo + hi) / 2) y) = Some ''main_financial''"
  using main_band_cases [OF assms]
  by (elim disjE conjE; simp add: validate_extraction_def main_financial_ranges_def
        table_cell_ranges_def py_round2_def Let_def)+

lemma validate_outcome:
  assumes "main_financial_ranges m = Some (lo, hi)"
  shows "table_cell_valid (validate_extraction m v y) \<longleftrightarrow> in_table_cell_band m v"
    and "main_financial_valid (validate_extraction m v y) \<longleftrightarrow>
           in_main_financial_band m v \<and> \<not> in_table_cell_band m v"
    and "invalid (validate_extraction m v y) \<longleftrightarrow>
           \<not> in_main_financial_band m v \<and> \<not> in_table_cell_band m v"
  using assms table_band_cases [OF assms]
  by (simp_all add: validate_extraction_def in_table_cell_band_def in_main_financial_band_def
        table_cell_valid_def main_financial_valid_def invalid_def Let_def)

lemma band_overlap:
  assumes "main_financial_ranges m = Some (lo, hi)"
  shows "in_table_cell_band m v \<and> in_main_financial_band m v \<longleftrightarrow>
         v = 1000 \<and> (m = ''net_profit'' \<or> m = ''net_interest_income'')"
  using main_band_cases [OF assms] table_band_cases [OF assms] assms
  by (elim disjE conjE; simp add: in_table_cell_band_def in_main_financial_band_def; linarith?)+

subsection \<open>Confidence at the midpoint and at the edges of the main band\<close>

text \<open>
  Claim C2, as stated, fails: the main-financial band of \<^verbatim>\<open>shareholder_equity\<close> is
  \<open>(80000, 120000)\<close>, its midpoint is \<open>100000\<close>, and at the edge \<open>80000\<close> the formula
  \<open>max(0.7, 1 - |value - midpoint| / midpoint)\<close> is \<open>max(0.7, 0.8) = 0.8\<close>, not \<open>0.7\<close>.
\<close>

theorem edge_confidence_counterexample:
  "main_financial_ranges ''shareholder_equity'' = Some (80000, 120000) \<and>
   val_confidence (validate_extraction ''shareholder_equity'' 80000 2022) = 0.8 \<and>
   val_confidence (validate_extraction ''shareholder_equity'' 80000 2022) \<noteq> 0.7"
  by (simp add: validate_extraction_def main_financial_ranges_def table_cell_ranges_def
        py_round2_def Let_def)

text \<open>
  Claim C2, amended. For every metric with a main-financial band the value at the
  midpoint of the band gets confidence \<open>1.0\<close>. The value at either edge gets \<open>0.7\<close>,
  except for \<^verbatim>\<open>shareholder_equity\<close>, where both edges get \<open>0.8\<close>. The upper edge and the
  midpoint are always classified as main-financial values; the lower edge \<open>1000\<close> of
  \<^verbatim>\<open>net_profit\<close> and of \<^verbatim>\<open>net_interest_income\<close> also closes their table-cell band and is
  classified as a table cell, which is where its \<open>0.7\<close> comes from.
\<close>

theorem midpoint_and_edge_confidence:
  "main_financial_ranges m = Some (lo, hi) \<Longrightarrow>
     val_confidence (validate_extraction m ((lo + hi) / 2) y) = 1 \<and>
     val_confidence (validate_extraction m lo y) =
       (if m = ''shareholder_equity'' then 0.8 else 0.7) \<and>
     val_confidence (validate_extraction m hi y) =
       (if m = ''shareholder_equity'' then 0.8 else 0.7) \<and>
     value_type (validate_extraction m ((lo + hi) / 2) y) = Some ''main_financial'' \<and>
     value_type (validate_extraction m hi y) = Some ''main_financial'' \<and>
     value_type (validate_extraction m lo y) =
       (if m = ''net_profit'' \<or> m = ''net_interest_income'' then Some ''table_cell''
        else Some ''main_financial'')"
  by (simp only: band_confidence simp_thms)

theorem midpoint_and_edge_confidence_witness:
  "main_financial_ranges ''total_assets'' = Some (400000, 1200000) \<and>
   val_confidence (validate_extraction ''total_assets'' ((400000 + 1200000) / 2) 2022) = 1 \<and>
   val_confidence (validate_extraction ''total_assets'' 400000 2022) = 0.7 \<and>
   val_confidence (validate_extraction ''total_assets'' 1200000 2022) = 0.7"
proof -
  have a: "main_financial_ranges ''total_assets'' = Some (400000, 1200000)"
    by (simp add: main_financial_ranges_def)
  from midpoint_and_edge_confidence [OF a, of 2022] a show ?thesis by simp
qed

subsection \<open>The three outcomes and the two bands\<close>

text \<open>
  Claim C3, as stated, fails in its second half: the table-cell band \<open>(1, 1000)\<close> and the
  main-financial band \<open>(1000, 20000)\<close> of \<^verbatim>\<open>net_profit\<close> are both closed intervals, and the
  positive value \<open>1000\<close> lies in both.
\<close>

theorem bands_overlap_counterexample:
  "(0::real) < 1000 \<and> in_table_cell_band ''net_profit'' 1000 \<and>
   in_main_financial_band ''net_profit'' 1000"
  by (simp add: in_table_cell_band_def in_main_financial_band_def table_cell_ranges_def
        main_financial_ranges_def)

text \<open>
  Claim C3, amended. For every metric with bands and every value the validation is
  exactly one of table-cell valid, main-financial valid and invalid: table-cell valid when
  the value lies in the table-cell band, which is tested first; main-financial valid when
  it lies in the main-financial band only; invalid when it lies in neither. The two bands
  of a metric share no value, except that those of \<^verbatim>\<open>net_profit\<close> and of
  \<^verbatim>\<open>net_interest_income\<close> share the single value \<open>1000\<close>.
\<close>

theorem validation_outcome_unique:
  assumes "main_financial_ranges m = Some (lo, hi)"
  shows "(table_cell_valid (validate_extraction m v y) \<and>
          \<not> main_financial_valid (validate_extraction m v y) \<and>
          \<not> invalid (validate_extraction m v y) \<or>
          \<not> table_cell_valid (validate_extraction m v y) \<and>
          main_financial_valid (validate_extraction m v y) \<and>
          \<not> invalid (validate_extraction m v y) \<or>
          \<not> table_cell_valid (validate_extraction m v y) \<and>
          \<not> main_financial_valid (validate_extraction m v y) \<and>
          invalid (validate_extraction m v y)) \<and>
         (table_cell_valid (validate_extraction m v y) \<longleftrightarrow> in_table_cell_band m v) \<and>
         (main_financial_valid (validate_extraction m v y) \<longleftrightarrow>
            in_main_financial_band m v \<and> \<not> in_table_cell_band m v) \<and>
         (invalid (validate_extraction m v y) \<longleftrightarrow>
            \<not> in_main_financial_band m v \<and> \<not> in_table_cell_band m v) \<and>
         (in_table_cell_band m v \<and> in_main_financial_band m v \<longleftrightarrow>
            v = 1000 \<and> (m = ''net_profit'' \<or> m = ''net_interest_income''))"
proof -
  note o = validate_outcome [OF assms, of v y]
  have "in_table_cell_band m v \<and> in_main_financial_band m v \<longleftrightarrow>
        v = 1000 \<and> (m = ''net_profit'' \<or> m = ''net_interest_income'')"
    by (rule band_overlap [OF assms])
  with o show ?thesis by blast
qed

theorem validation_outcome_unique_witness:
  "main_financial_ranges ''total_loans'' = Some (200000, 500000) \<and>
   main_financial_valid (validate_extraction ''total_loans'' 250000 2022) \<and>
   \<not> table_cell_valid (validate_extraction ''total_loans'' 250000 2022) \<and>
   \<not> invalid (validate_extraction ''total_loans'' 250000 2022) \<and>
   \<not> (in_table_cell_band ''total_loans'' 250000 \<and> in_main_financial_band ''total_loans'' 250000)"
proof -
  have a: "main_financial_ranges ''total_loans'' = Some (200000, 500000)"
    by (simp add: main_financial_ranges_def)
  have b: "in_main_financial_band ''total_loans'' 250000"
    by (simp add: in_main_financial_band_def a)
  have c: "\<not> in_table_cell_band ''total_loans'' 250000"
    by (simp add: in_table_cell_band_def table_cell_ranges_def)
  from validation_outcome_unique [OF a, of 250000 2022] a b c show ?thesis by blast
qed

section \<open>Properties of the data point aggregator\<close>

lemma grouped_value_step:
  "grouped_value (group_step g dp) p m =
     (if period dp = p \<and> metric dp = m then Some (dp_value dp) else grouped_value g p m)"
  by (auto simp: grouped_value_def group_step_def Let_def dom_def split: option.splits)

lemma grouped_value_last:
  "grouped_value (group_data_by_period dps) p m =
     (case filter (\<lambda>dp. period dp = p \<and> metric dp = m) dps of
        [] \<Rightarrow> None
      | x # xs \<Rightarrow> Some (dp_value (last (x # xs))))"
proof (induction dps rule: rev_induct)
  case Nil
  then show ?case by (simp add: group_data_by_period_def grouped_value_def)
next
  case (snoc d dps)
  have "grouped_value (group_data_by_period (dps @ [d])) p m =
        (if period d = p \<and> metric d = m then Some (dp_value d)
         else grouped_value (group_data_by_period dps) p m)"
    by (simp add: group_data_by_period_def grouped_value_step)
  with snoc.IH show ?case
    by (auto split: list.splits)
qed

text \<open>
  Claim C1, as stated, fails: the loop overwrites \<^verbatim>\<open>grouped[period][dp.metric]\<close> with every
  data point and never reads a confidence. For two net-profit points of the first quarter
  of 2022, the first of value \<open>5120\<close> and confidence \<open>0.8\<close>, the second of value \<open>600\<close> and
  confidence \<open>0.6\<close>, the mapping holds \<open>600\<close>, while the point of highest confidence has
  the value \<open>5120\<close>.
\<close>

theorem aggregator_highest_confidence_counterexample:
  "grouped_value
     (group_data_by_period
        [\<lparr>metric = NET_PROFIT, dp_value = 5120, period = ''2022_Q1'',
          metadata = \<lparr>year = 2022, quarter = Q1\<rparr>, source_page = 3,
          source_section = ''income_statement'', confidence = 0.8\<rparr>,
         \<lparr>metric = NET_PROFIT, dp_value = 600, period = ''2022_Q1'',
          metadata = \<lparr>year = 2022, quarter = Q1\<rparr>, source_page = 7,
          source_section = ''table'', confidence = 0.6\<rparr>])
     ''2022_Q1'' NET_PROFIT = Some 600 \<and>
   spec_highest_confidence_value
     [\<lparr>metric = NET_PROFIT, dp_value = 5120, period = ''2022_Q1'',
       metadata = \<lparr>year = 2022, quarter = Q1\<rparr>, source_page = 3,
       source_section = ''income_statement'', confidence = 0.8\<rparr>,
      \<lparr>metric = NET_PROFIT, dp_value = 600, period = ''2022_Q1'',
       metadata = \<lparr>year = 2022, quarter = Q1\<rparr>, source_page = 7,
       source_section = ''table'', confidence = 0.6\<rparr>]
     ''2022_Q1'' NET_PROFIT = Some 5120"
  by (simp add: group_data_by_period_def group_step_def grouped_value_def Let_def
        spec_highest_confidence_value_def keep_better_def)

text \<open>
  Claim C1, amended. For every list of data points, the mapping built by the aggregator
  maps a period and a metric to the value of the last data point of the list with that
  period and metric, whatever the confidences, and has no entry when the list has no such
  point.
\<close>

theorem aggregator_last_seen_wins:
  "grouped_value (group_data_by_period dps) p m =
     (case filter (\<lambda>dp. period dp = p \<and> metric dp = m) dps of
        [] \<Rightarrow> None
      | x # xs \<Rightarrow> Some (dp_value (last (x # xs))))"
  by (rule grouped_value_last)

section \<open>Properties of the value normalizer\<close>

lemma is_digit_iff: "is_digit c \<longleftrightarrow> 48 \<le> (of_char c :: nat) \<and> (of_char c :: nat) \<le> 57"
  by (simp add: is_digit_def less_eq_char_def)






























section \<open>Properties of the extraction stage\<close>

















section \<open>Properties of the matcher and of the temporal reference parser\<close>








lemma of_char_upper:
  "(of_char (upper_char c) :: nat) =
     (if (97 \<le> (of_char c :: nat) \<and> (of_char c :: nat) \<le> 122) \<or>
         (224 \<le> (of_char c :: nat) \<and> (of_char c :: nat) \<le> 254 \<and> (of_char c :: nat) \<noteq> 247)
      then of_char c - 32 else of_char c)"
proof -
  have "(of_char c :: nat) < 256" by simp
  then have "(of_char c - 32 :: nat) < 256" by arith
  then have "(of_char c - 32 :: nat) mod 256 = of_char c - 32" by (rule mod_less)
  then show ?thesis by (simp add: upper_char_def Let_def)
qed

lemma of_char_lower:
  "(of_char (lower_char c) :: nat) =
     (if (65 \<le> (of_char c :: nat) \<and> (of_char c :: nat) \<le> 90) \<or>
         (192 \<le> (of_char c :: nat) \<and> (of_char c :: nat) \<le> 222 \<and> (of_char c :: nat) \<noteq> 215)
      then of_char c + 32 else of_char c)"
proof -
  have "(of_char c :: nat) < 256" by simp
  moreover have "(of_char c :: nat) \<le> 222 \<Longrightarrow> (of_char c + 32 :: nat) mod 256 = of_char c + 32"
    by (rule mod_less) arith
  moreover have "(of_char c :: nat) \<le> 90 \<Longrightarrow> (of_char c + 32 :: nat) mod 256 = of_char c + 32"
    by (rule mod_less) arith
  ultimately show ?thesis by (simp add: lower_char_def Let_def)
qed


lemma char_eqI: "(of_char c :: nat) = of_char d \<Longrightarrow> c = d"
  by simp
























lemma py_in_Cons: "py_in sub s \<Longrightarrow> py_in sub (c # s)"
  by simp































subsection \<open>Quarter tokens outside the range\<close>



subsection \<open>The periods of a query\<close>



lemma lower_q_upper:
  assumes "lower_char a = CHR ''q''"
  shows "upper_char a = CHR ''Q''"
proof -
  from assms have "(of_char (lower_char a) :: nat) = 113" by simp
  then have "(of_char a :: nat) = 81 \<or> (of_char a :: nat) = 113"
    by (auto simp: of_char_lower split: if_splits)
  then have "(of_char (upper_char a) :: nat) = 81"
    by (auto simp: of_char_upper)
  then show ?thesis by (intro char_eqI) simp
qed

lemma digit_upper: "is_digit b \<Longrightarrow> upper_char b = b"
  by (rule char_eqI) (auto simp: is_digit_iff of_char_upper)
















end
